theory Spec2Isabelle
  imports Complex_Main "HOL-Library.Char_ord" "HOL-Library.List_Lexorder"
begin

section \<open>Configuration (config.py)\<close>

definition IMG_SIZE :: "nat \<times> nat" where
  "IMG_SIZE = (224, 224)"

definition BATCH_SIZE :: nat where
  "BATCH_SIZE = 16"

definition EPOCHS :: nat where
  "EPOCHS = 50"

definition LEARNING_RATE :: real where
  "LEARNING_RATE = 1 / 1000"

definition FINE_TUNE_EPOCHS :: nat where
  "FINE_TUNE_EPOCHS = 20"

definition FINE_TUNE_LR :: real where
  "FINE_TUNE_LR = 1 / 10000"

definition VALIDATION_SPLIT :: real where
  "VALIDATION_SPLIT = 2 / 10"

definition CLASS_NAMES :: "string list" where
  "CLASS_NAMES = [''candidiasis'', ''tinea_corporis'', ''tinea_pedis'', ''tinea_versicolor'']"

section \<open>Python strings\<close>

text \<open>
  A Python \<open>str\<close> is modelled as a \<open>string\<close> holding its UTF-8 bytes. The only
  characters outside ASCII that the modelled code writes are the cross mark and the
  box-drawing characters of the messages of \<open>validate_dataset\<close>.
\<close>

definition newline :: string where
  "newline = [CHR 0x0A]"

definition cross_mark :: string where
  "cross_mark = [CHR 0xE2, CHR 0x9D, CHR 0x8C]"

definition box_tee :: string where
  "box_tee = [CHR 0xE2, CHR 0x94, CHR 0x9C, CHR 0xE2, CHR 0x94, CHR 0x80, CHR 0xE2, CHR 0x94, CHR 0x80]"

definition box_corner :: string where
  "box_corner = [CHR 0xE2, CHR 0x94, CHR 0x94, CHR 0xE2, CHR 0x94, CHR 0x80, CHR 0xE2, CHR 0x94, CHR 0x80]"

text \<open>\<open>sep.join(xs)\<close>.\<close>

fun join :: "string \<Rightarrow> string list \<Rightarrow> string" where
  "join sep [] = []"
| "join sep [x] = x"
| "join sep (x # y # ys) = x @ sep @ join sep (y # ys)"

text \<open>\<open>str(n)\<close> for a non-negative integer: its decimal digits.\<close>

definition digit :: "nat \<Rightarrow> char" where
  "digit d = ''0123456789'' ! d"

function str_nat :: "nat \<Rightarrow> string" where
  "str_nat n = (if n < 10 then [digit n] else str_nat (n div 10) @ [digit (n mod 10)])"
  by pat_completeness auto
termination
  by (relation "measure id") auto

declare str_nat.simps [simp del]

text \<open>\<open>s.lower()\<close>, on the ASCII letters (the only ones that can reach an accepted extension).\<close>

definition lower_char :: "char \<Rightarrow> char" where
  "lower_char c =
     (case map_of (zip ''ABCDEFGHIJKLMNOPQRSTUVWXYZ'' ''abcdefghijklmnopqrstuvwxyz'') c of
        None \<Rightarrow> c
      | Some l \<Rightarrow> l)"

definition lower :: "string \<Rightarrow> string" where
  "lower s = map lower_char s"

text \<open>\<open>s.rfind(c)\<close>: the last index of \<open>c\<close>, \<open>None\<close> for Python's \<open>-1\<close>.\<close>

fun rfind :: "char \<Rightarrow> string \<Rightarrow> nat option" where
  "rfind c [] = None"
| "rfind c (x # xs) =
     (case rfind c xs of
        Some i \<Rightarrow> Some (Suc i)
      | None \<Rightarrow> if x = c then Some 0 else None)"

text \<open>\<open>PurePath.suffix\<close> of a file name (pathlib): the last dot and what follows it, unless
  the dot is the first or the last character of the name.\<close>

definition suffix :: "string \<Rightarrow> string" where
  "suffix name =
     (case rfind (CHR ''.'') name of
        None \<Rightarrow> []
      | Some i \<Rightarrow> if 0 < i \<and> Suc i < length name then drop i name else [])"

text \<open>\<open>name.startswith('.')\<close>.\<close>

fun startswith_dot :: "string \<Rightarrow> bool" where
  "startswith_dot [] = False"
| "startswith_dot (c # cs) = (c = CHR ''.'')"

section \<open>The dataset directory tree\<close>

text \<open>
  A file holds its content (of a type the model leaves open); a directory lists its
  entries, each under its name, in the order the operating system reports them.
  A file system maps the path of a dataset root to the tree found there.
\<close>

datatype 'c node = File 'c | Dir "(string \<times> 'c node) list"

type_synonym 'c fs = "string \<Rightarrow> 'c node option"

datatype error =
    ValueError "string option"
  | NotADirectoryError
  | FileNotFoundError
  | IndexError
  | InterpreterError

text \<open>A Python \<open>dict\<close> as an association list in insertion order; \<open>d[k] = v\<close> keeps the
  place of a key that is already present.\<close>

fun dict_set :: "'k \<Rightarrow> 'v \<Rightarrow> ('k \<times> 'v) list \<Rightarrow> ('k \<times> 'v) list" where
  "dict_set k v [] = [(k, v)]"
| "dict_set k v ((k', v') # kvs) =
     (if k' = k then (k, v) # kvs else (k', v') # dict_set k v kvs)"

section \<open>Dataset validation (train.py, validate_dataset)\<close>

definition valid_extensions :: "string list" where
  "valid_extensions = [''.jpg'', ''.jpeg'', ''.png'', ''.webp'', ''.bmp'', ''.gif'']"

definition MIN_CLASSES :: nat where
  "MIN_CLASSES = 2"

definition MIN_IMAGES_PER_CLASS :: nat where
  "MIN_IMAGES_PER_CLASS = 3"

definition MIN_TOTAL_IMAGES :: nat where
  "MIN_TOTAL_IMAGES = 20"

text \<open>\<open>f.is_file() and f.suffix.lower() in valid_extensions\<close>.\<close>

fun is_image_entry :: "string \<times> 'c node \<Rightarrow> bool" where
  "is_image_entry (name, File c) = (lower (suffix name) \<in> set valid_extensions)"
| "is_image_entry (name, Dir es) = False"

text \<open>\<open>sum(1 for f in class_dir.iterdir() if ...)\<close>.\<close>

definition count_images :: "(string \<times> 'c node) list \<Rightarrow> nat" where
  "count_images es = length (filter is_image_entry es)"

text \<open>The loop over \<open>data_path.iterdir()\<close> that fills \<open>class_counts\<close>.\<close>

fun scan_classes :: "(string \<times> 'c node) list \<Rightarrow> (string \<times> nat) list \<Rightarrow> (string \<times> nat) list" where
  "scan_classes [] class_counts = class_counts"
| "scan_classes ((name, File c) # rest) class_counts = scan_classes rest class_counts"
| "scan_classes ((name, Dir es) # rest) class_counts =
     (if \<not> startswith_dot name then
        (let count = count_images es in
         if count > 0 then scan_classes rest (dict_set name count class_counts)
         else scan_classes rest class_counts)
      else scan_classes rest class_counts)"

record stats =
  num_classes :: nat
  total_images :: nat
  class_counts :: "(string \<times> nat) list"

text \<open>The checks of \<open>validate_dataset\<close> on the counted classes: the list \<open>errors\<close> in the
  order the code appends to it, then the returned triple.\<close>

definition no_images_errors :: "string \<Rightarrow> string list" where
  "no_images_errors data_dir =
     [cross_mark @ '' No training images found in '' @ data_dir,
      ''   Please upload images organized in class folders:'',
      ''   data/training_images/'',
      ''   '' @ box_tee @ '' candidiasis/'',
      ''   '' @ box_tee @ '' tinea_corporis/'',
      ''   '' @ box_tee @ '' tinea_pedis/'',
      ''   '' @ box_corner @ '' tinea_versicolor/'']"

definition few_classes_errors :: "(string \<times> nat) list \<Rightarrow> string list" where
  "few_classes_errors cc =
     [cross_mark @ '' Insufficient disease classes: '' @ str_nat (length cc)
        @ '' (minimum: '' @ str_nat MIN_CLASSES @ '')'',
      ''   Current classes: '' @ join '', '' (map fst cc),
      ''   Please add images to at least 2 different disease folders'']"

definition per_class_errors :: "(string \<times> nat) list \<Rightarrow> string list" where
  "per_class_errors insufficient_classes =
     (cross_mark @ '' Some classes have too few images (minimum: ''
        @ str_nat MIN_IMAGES_PER_CLASS @ '' per class):'')
     # map (\<lambda>(cls, count). ''   - '' @ cls @ '': '' @ str_nat count @ '' images (need ''
              @ str_nat (MIN_IMAGES_PER_CLASS - count) @ '' more)'') insufficient_classes"

definition total_errors :: "nat \<Rightarrow> string list" where
  "total_errors n_images =
     [cross_mark @ '' Insufficient total images: '' @ str_nat n_images
        @ '' (minimum: '' @ str_nat MIN_TOTAL_IMAGES @ '')'',
      ''   Please add '' @ str_nat (MIN_TOTAL_IMAGES - n_images) @ '' more images'']"

definition check_counts :: "string \<Rightarrow> (string \<times> nat) list \<Rightarrow> bool \<times> string option \<times> stats option" where
  "check_counts data_dir cc =
     (let n_images = sum_list (map snd cc);
          n_classes = length cc;
          errors1 = (if n_classes = 0 then no_images_errors data_dir
                     else if n_classes < MIN_CLASSES then few_classes_errors cc
                     else []);
          insufficient_classes = filter (\<lambda>(k, v). v < MIN_IMAGES_PER_CLASS) cc;
          errors2 = (if insufficient_classes \<noteq> [] \<and> n_classes \<ge> MIN_CLASSES
                     then per_class_errors insufficient_classes else []);
          errors3 = (if n_images < MIN_TOTAL_IMAGES \<and> n_classes \<ge> MIN_CLASSES
                     then total_errors n_images else []);
          errors = errors1 @ errors2 @ errors3;
          st = \<lparr>num_classes = n_classes, total_images = n_images, class_counts = cc\<rparr>
      in if errors \<noteq> [] then (False, Some (join newline errors), Some st)
         else (True, None, Some st))"

text \<open>\<open>validate_dataset(data_dir)\<close>. The empty dictionary returned with the "not found"
  message is \<open>None\<close>; iterating a root that is a file raises.\<close>

definition validate_dataset ::
  "'c fs \<Rightarrow> string \<Rightarrow> error + (bool \<times> string option \<times> stats option)" where
  "validate_dataset files data_dir =
     (case files data_dir of
        None \<Rightarrow> Inr (False, Some (cross_mark @ '' Dataset directory not found: '' @ data_dir), None)
      | Some (File c) \<Rightarrow> Inl NotADirectoryError
      | Some (Dir es) \<Rightarrow> Inr (check_counts data_dir (scan_classes es [])))"

text \<open>The populated classes of a dataset root, said directly: the sub-directories whose
  name does not start with a dot and that hold at least one image file, each with the
  number of its image files, in listing order.\<close>

fun populated_classes :: "(string \<times> 'c node) list \<Rightarrow> (string \<times> nat) list" where
  "populated_classes [] = []"
| "populated_classes ((name, File c) # rest) = populated_classes rest"
| "populated_classes ((name, Dir es) # rest) =
     (if \<not> startswith_dot name \<and> count_images es > 0
      then (name, count_images es) # populated_classes rest
      else populated_classes rest)"

section \<open>Cleaning corrupted images (preprocess.py, remove_corrupted_images)\<close>

text \<open>\<open>os.path.join(a, b)\<close> (posixpath).\<close>

definition path_join :: "string \<Rightarrow> string \<Rightarrow> string" where
  "path_join a b =
     (if b \<noteq> [] \<and> hd b = CHR ''/'' then b
      else if a = [] \<or> last a = CHR ''/'' then a @ b
      else a @ ''/'' @ b)"

text \<open>
  \<open>is_valid_image(filepath)\<close> opens the file with PIL and verifies it; whether that
  succeeds depends on the file's content only, so the model takes it as a predicate
  \<open>is_valid_image\<close> on contents.

  \<open>os.walk(root_path)\<close> visits a directory, then its sub-directories in listing order;
  the loop body looks at the files of the directory visited. \<open>removed_here\<close> is what one
  visit appends to \<open>removed_files\<close>, \<open>walk_removed\<close> the whole list, and \<open>clean\<close> the
  tree that the calls of \<open>os.remove\<close> leave. Walking a path that is not a directory
  visits nothing.
\<close>

fun removed_here :: "('c \<Rightarrow> bool) \<Rightarrow> string \<Rightarrow> (string \<times> 'c node) list \<Rightarrow> string list" where
  "removed_here is_valid_image subdir [] = []"
| "removed_here is_valid_image subdir ((name, File c) # rest) =
     (if \<not> is_valid_image c
      then path_join subdir name # removed_here is_valid_image subdir rest
      else removed_here is_valid_image subdir rest)"
| "removed_here is_valid_image subdir ((name, Dir es) # rest) =
     removed_here is_valid_image subdir rest"

fun walk_removed :: "('c \<Rightarrow> bool) \<Rightarrow> string \<Rightarrow> 'c node \<Rightarrow> string list"
  and walk_removed_subdirs :: "('c \<Rightarrow> bool) \<Rightarrow> string \<Rightarrow> (string \<times> 'c node) list \<Rightarrow> string list" where
  "walk_removed is_valid_image dir_path (File c) = []"
| "walk_removed is_valid_image dir_path (Dir es) =
     removed_here is_valid_image dir_path es @ walk_removed_subdirs is_valid_image dir_path es"
| "walk_removed_subdirs is_valid_image dir_path [] = []"
| "walk_removed_subdirs is_valid_image dir_path ((name, sub) # rest) =
     walk_removed is_valid_image (path_join dir_path name) sub
       @ walk_removed_subdirs is_valid_image dir_path rest"

fun clean :: "('c \<Rightarrow> bool) \<Rightarrow> 'c node \<Rightarrow> 'c node"
  and clean_entries :: "('c \<Rightarrow> bool) \<Rightarrow> (string \<times> 'c node) list \<Rightarrow> (string \<times> 'c node) list" where
  "clean is_valid_image (File c) = File c"
| "clean is_valid_image (Dir es) = Dir (clean_entries is_valid_image es)"
| "clean_entries is_valid_image [] = []"
| "clean_entries is_valid_image ((name, File c) # rest) =
     (if \<not> is_valid_image c then clean_entries is_valid_image rest
      else (name, File c) # clean_entries is_valid_image rest)"
| "clean_entries is_valid_image ((name, Dir es) # rest) =
     (name, clean is_valid_image (Dir es)) # clean_entries is_valid_image rest"

definition remove_corrupted_images ::
  "('c \<Rightarrow> bool) \<Rightarrow> 'c fs \<Rightarrow> string \<Rightarrow> string list \<times> 'c fs" where
  "remove_corrupted_images is_valid_image files root_path =
     (case files root_path of
        None \<Rightarrow> ([], files)
      | Some t \<Rightarrow> (walk_removed is_valid_image root_path t,
                   files(root_path := Some (clean is_valid_image t))))"

text \<open>Every file under a root with its path and content, in the order of the walk.\<close>

fun files_here :: "string \<Rightarrow> (string \<times> 'c node) list \<Rightarrow> (string \<times> 'c) list" where
  "files_here subdir [] = []"
| "files_here subdir ((name, File c) # rest) = (path_join subdir name, c) # files_here subdir rest"
| "files_here subdir ((name, Dir es) # rest) = files_here subdir rest"

fun all_files :: "string \<Rightarrow> 'c node \<Rightarrow> (string \<times> 'c) list"
  and all_files_subdirs :: "string \<Rightarrow> (string \<times> 'c node) list \<Rightarrow> (string \<times> 'c) list" where
  "all_files dir_path (File c) = []"
| "all_files dir_path (Dir es) = files_here dir_path es @ all_files_subdirs dir_path es"
| "all_files_subdirs dir_path [] = []"
| "all_files_subdirs dir_path ((name, sub) # rest) =
     all_files (path_join dir_path name) sub @ all_files_subdirs dir_path rest"

definition files_under :: "'c fs \<Rightarrow> string \<Rightarrow> (string \<times> 'c) list" where
  "files_under files root_path =
     (case files root_path of None \<Rightarrow> [] | Some t \<Rightarrow> all_files root_path t)"

section \<open>The model and the training run (train.py)\<close>

text \<open>
  TensorFlow and Keras are not part of the repository. Of a Keras model the development
  keeps what the code of \<open>train\<close> sets: the \<open>trainable\<close> flag of each layer of the
  backbone (\<open>base_model.layers\<close>, in order), the layers of the classification head, and
  the learning rate given to the last \<open>compile\<close>. The number of layers of the pretrained
  backbone is a parameter.
\<close>

datatype activation = Relu | Softmax

datatype layer =
    GlobalAveragePooling2D
  | BatchNormalization
  | Dense nat activation
  | Dropout real

record model =
  backbone :: "bool list"
  head :: "layer list"
  compiled_lr :: "real option"

text \<open>\<open>base_model.trainable = v\<close>: Keras sets the flag of every layer of the model.\<close>

definition set_trainable :: "bool \<Rightarrow> model \<Rightarrow> model" where
  "set_trainable v m = m\<lparr>backbone := map (\<lambda>_. v) (backbone m)\<rparr>"

text \<open>\<open>for layer in base_model.layers[:k]: layer.trainable = False\<close>; the slice stops at
  the end of a shorter list.\<close>

definition freeze_first :: "nat \<Rightarrow> model \<Rightarrow> model" where
  "freeze_first k m =
     m\<lparr>backbone := map (\<lambda>_. False) (take k (backbone m)) @ drop k (backbone m)\<rparr>"

definition compile :: "real \<Rightarrow> model \<Rightarrow> model" where
  "compile lr m = m\<lparr>compiled_lr := Some lr\<rparr>"

definition build_model :: "nat \<Rightarrow> nat \<Rightarrow> model" where
  "build_model n_backbone_layers n_classes =
     set_trainable False
       \<lparr>backbone = replicate n_backbone_layers True,
        head = [GlobalAveragePooling2D, BatchNormalization, Dense 256 Relu, Dropout (5 / 10),
                BatchNormalization, Dense 128 Relu, Dropout (3 / 10), Dense n_classes Softmax],
        compiled_lr = None\<rparr>"

text \<open>Phase 2 of \<open>train\<close>, up to the second \<open>fit\<close>: unfreeze the backbone, freeze its first
  100 layers again, compile with the fine-tuning rate.\<close>

definition fine_tune_setup :: "model \<Rightarrow> model" where
  "fine_tune_setup m = compile FINE_TUNE_LR (freeze_first 100 (set_trainable True m))"

text \<open>
  Modelled from the spec: the class-index assignment of the Keras directory generator
  (\<open>flow_from_directory\<close>, which \<open>create_data_generators\<close> calls and which is not in the
  repository) is alphabetical by directory name and fixed when the generator is
  constructed: one class per sub-directory of the dataset root.
\<close>

fun subdir_names :: "(string \<times> 'c node) list \<Rightarrow> string list" where
  "subdir_names [] = []"
| "subdir_names ((name, File c) # rest) = subdir_names rest"
| "subdir_names ((name, Dir es) # rest) = name # subdir_names rest"

definition generator_class_indices :: "'c fs \<Rightarrow> string \<Rightarrow> string list" where
  "generator_class_indices files data_dir =
     (case files data_dir of
        Some (Dir es) \<Rightarrow> sort (subdir_names es)
      | _ \<Rightarrow> [])"

text \<open>
  What \<open>train\<close> does beyond computing, in order. Console output is left out. The calls
  into Keras and matplotlib are recorded as events and taken to succeed.
\<close>

datatype event =
    CleanedData "string list"
  | CreatedGenerators string nat real
  | BuiltModel nat
  | Compiled real
  | GotCallbacks string
  | Fitted nat
  | Evaluated
  | PlottedHistory string
  | SavedModel string

record trained =
  final_model :: model
  class_indices :: "string list"

record 'c run =
  outcome :: "error + trained"
  events :: "event list"
  files_after :: "'c fs"

definition train :: "('c \<Rightarrow> bool) \<Rightarrow> nat \<Rightarrow> 'c fs \<Rightarrow> string \<Rightarrow> string \<Rightarrow> 'c run" where
  "train is_valid_image n_backbone_layers files data_dir output_dir =
     (case validate_dataset files data_dir of
        Inl e \<Rightarrow> \<lparr>outcome = Inl e, events = [], files_after = files\<rparr>
      | Inr (is_valid, error_msg, st) \<Rightarrow>
          if \<not> is_valid
          then \<lparr>outcome = Inl (ValueError error_msg), events = [], files_after = files\<rparr>
          else
            (let (removed, files1) = remove_corrupted_images is_valid_image files data_dir;
                 classes = generator_class_indices files1 data_dir;
                 n_classes = length classes;
                 m1 = compile LEARNING_RATE (build_model n_backbone_layers n_classes);
                 model_path = path_join output_dir ''fungal_classifier.keras'';
                 m2 = fine_tune_setup m1
             in \<lparr>outcome = Inr \<lparr>final_model = m2, class_indices = classes\<rparr>,
                 events =
                   [CleanedData removed,
                    CreatedGenerators data_dir BATCH_SIZE VALIDATION_SPLIT,
                    BuiltModel n_classes,
                    Compiled LEARNING_RATE,
                    GotCallbacks model_path,
                    Fitted EPOCHS,
                    Compiled FINE_TUNE_LR,
                    Fitted FINE_TUNE_EPOCHS,
                    Evaluated,
                    PlottedHistory (path_join output_dir ''training_history.png''),
                    SavedModel model_path],
                 files_after = files1\<rparr>))"

section \<open>Tensors and image preprocessing (preprocess.py)\<close>

text \<open>
  A tensor is its shape and its elements in row-major order; elements are real numbers,
  so rounding of floating-point arithmetic is not modelled.
\<close>

record tensor =
  shape :: "nat list"
  elems :: "real list"

text \<open>\<open>mobilenet_v2.preprocess_input\<close>: every element \<open>x\<close> becomes \<open>x / 127.5 - 1\<close>.\<close>

definition scale :: "real \<Rightarrow> real" where
  "scale x = x / (255 / 2) - 1"

definition preprocess_input :: "tensor \<Rightarrow> tensor" where
  "preprocess_input t = t\<lparr>elems := map scale (elems t)\<rparr>"

text \<open>\<open>expand_dims(t, axis=0)\<close>.\<close>

definition expand_dims :: "tensor \<Rightarrow> tensor" where
  "expand_dims t = t\<lparr>shape := 1 # shape t\<rparr>"

text \<open>
  Decoding and resizing are done by PIL and TensorFlow. The two preprocessing functions
  take the library operations they call as parameters: \<open>load_img\<close> (open the file at a
  path and resize it to the target size; it may raise) with \<open>img_to_array\<close>, and
  \<open>decode_image\<close> (decode a byte buffer with the given number of channels; it may raise)
  with \<open>resize\<close>.
\<close>

definition preprocess_image ::
  "(string \<Rightarrow> nat \<times> nat \<Rightarrow> error + 'p) \<Rightarrow> ('p \<Rightarrow> tensor) \<Rightarrow> string \<Rightarrow> nat \<times> nat
     \<Rightarrow> error + tensor" where
  "preprocess_image load_img img_to_array image_path target_size =
     (case load_img image_path target_size of
        Inl e \<Rightarrow> Inl e
      | Inr img \<Rightarrow> Inr (expand_dims (preprocess_input (img_to_array img))))"

definition preprocess_image_bytes ::
  "('b \<Rightarrow> nat \<Rightarrow> error + tensor) \<Rightarrow> (tensor \<Rightarrow> nat \<times> nat \<Rightarrow> tensor) \<Rightarrow> 'b \<Rightarrow> nat \<times> nat
     \<Rightarrow> error + tensor" where
  "preprocess_image_bytes decode_image resize image_bytes target_size =
     (case decode_image image_bytes 3 of
        Inl e \<Rightarrow> Inl e
      | Inr img \<Rightarrow> Inr (expand_dims (preprocess_input (resize img target_size))))"

section \<open>Export to TensorFlow Lite (export_tflite.py)\<close>

text \<open>
  A converted artifact is what the interpreter makes of it: the shape of its input and
  the function from an input tensor to the output tensor (or an error). The files the
  exporter reads and writes are kept in a store from paths to files; a saved Keras model
  is a value of a type the model leaves open, and the converter is a parameter.
\<close>

record tflite =
  input_shape :: "nat list"
  invoke :: "tensor \<Rightarrow> error + tensor"

datatype 'k stored = KerasFile 'k | TFLiteFile tflite | TextFile string

type_synonym 'k store = "string \<Rightarrow> 'k stored option"

definition convert_to_tflite ::
  "('k \<Rightarrow> bool \<Rightarrow> error + tflite) \<Rightarrow> 'k store \<Rightarrow> string \<Rightarrow> string \<Rightarrow> bool
     \<Rightarrow> error + ('k store \<times> string)" where
  "convert_to_tflite convert st keras_model_path output_path quantize =
     (case st keras_model_path of
        Some (KerasFile k) \<Rightarrow>
          (case convert k quantize of
             Inl e \<Rightarrow> Inl e
           | Inr tflite_model \<Rightarrow> Inr (st(output_path := Some (TFLiteFile tflite_model)), output_path))
      | _ \<Rightarrow> Inl FileNotFoundError)"

text \<open>\<open>create_labels_file(output_dir)\<close>: one line per entry of \<open>CLASS_NAMES\<close>.\<close>

definition labels_text :: string where
  "labels_text = concat (map (\<lambda>class_name. class_name @ newline) CLASS_NAMES)"

definition create_labels_file :: "'k store \<Rightarrow> string \<Rightarrow> 'k store \<times> string" where
  "create_labels_file st output_dir =
     (let labels_path = path_join output_dir ''labels.txt''
      in (st(labels_path := Some (TextFile labels_text)), labels_path))"

text \<open>The lines of a text file: the pieces that end in a newline, and a last piece
  without one if it is not empty.\<close>

fun lines_acc :: "string \<Rightarrow> string \<Rightarrow> string list" where
  "lines_acc cur [] = (if cur = [] then [] else [cur])"
| "lines_acc cur (c # cs) =
     (if c = CHR 0x0A then cur # lines_acc [] cs else lines_acc (cur @ [c]) cs)"

definition file_lines :: "string \<Rightarrow> string list" where
  "file_lines s = lines_acc [] s"

text \<open>\<open>output[0]\<close> of a numpy array: the first sub-array along the first axis.\<close>

definition first_row :: "tensor \<Rightarrow> error + real list" where
  "first_row t =
     (case shape t of
        [] \<Rightarrow> Inl IndexError
      | d # ds \<Rightarrow> if d = 0 then Inl IndexError else Inr (take (prod_list ds) (elems t)))"

text \<open>\<open>np.argmax\<close> of a non-empty list: the first index of a largest element.\<close>

fun argmax_from :: "nat \<Rightarrow> real \<Rightarrow> nat \<Rightarrow> real list \<Rightarrow> nat" where
  "argmax_from best_i best i [] = best_i"
| "argmax_from best_i best i (x # xs) =
     (if x > best then argmax_from i x (Suc i) xs else argmax_from best_i best (Suc i) xs)"

definition argmax :: "real list \<Rightarrow> error + nat" where
  "argmax xs = (case xs of [] \<Rightarrow> Inl (ValueError None) | x # rest \<Rightarrow> Inr (argmax_from 0 x 1 rest))"

text \<open>
  \<open>verify_tflite_model\<close> prints what it finds and returns nothing; the model returns
  what is printed. \<open>rnd\<close> gives the elements drawn by \<open>np.random.randn\<close> for a shape.
  \<open>test_image\<close> is \<open>None\<close> when no test image path is given or the path does not exist,
  and otherwise the result of \<open>preprocess_image\<close> on it.
\<close>

record report =
  output_shape :: "nat list"
  probabilities :: "real list"
  sum_of_probabilities :: real
  prediction :: "(string \<times> real) option"

definition predict_test_image :: "tflite \<Rightarrow> (error + tensor) option \<Rightarrow> error + (string \<times> real) option" where
  "predict_test_image m test_image =
     (case test_image of
        None \<Rightarrow> Inr None
      | Some (Inl e) \<Rightarrow> Inl e
      | Some (Inr img) \<Rightarrow>
          (case invoke m img of
             Inl e \<Rightarrow> Inl e
           | Inr out \<Rightarrow>
               (case first_row out of
                  Inl e \<Rightarrow> Inl e
                | Inr row \<Rightarrow>
                    (case argmax row of
                       Inl e \<Rightarrow> Inl e
                     | Inr i \<Rightarrow>
                         if i < length CLASS_NAMES
                         then Inr (Some (CLASS_NAMES ! i, Max (set row) * 100))
                         else Inl IndexError))))"

definition verify_tflite_model ::
  "'k store \<Rightarrow> (nat list \<Rightarrow> real list) \<Rightarrow> string \<Rightarrow> (error + tensor) option \<Rightarrow> error + report" where
  "verify_tflite_model st rnd tflite_path test_image =
     (case st tflite_path of
        Some (TFLiteFile m) \<Rightarrow>
          (case invoke m \<lparr>shape = input_shape m, elems = rnd (input_shape m)\<rparr> of
             Inl e \<Rightarrow> Inl e
           | Inr out \<Rightarrow>
               (case first_row out of
                  Inl e \<Rightarrow> Inl e
                | Inr row \<Rightarrow>
                    (case predict_test_image m test_image of
                       Inl e \<Rightarrow> Inl e
                     | Inr p \<Rightarrow>
                         Inr \<lparr>output_shape = shape out, probabilities = row,
                              sum_of_probabilities = sum_list row, prediction = p\<rparr>)))
      | _ \<Rightarrow> Inl InterpreterError)"

text \<open>\<open>export_all\<close>: both conversions, the labels file, then the verification. The
  result lists the artifacts that were verified, each with its report.\<close>

definition export_all ::
  "('k \<Rightarrow> bool \<Rightarrow> error + tflite) \<Rightarrow> (nat list \<Rightarrow> real list) \<Rightarrow> 'k store \<Rightarrow> string \<Rightarrow> string
     \<Rightarrow> (error + (string \<times> report) list) \<times> 'k store" where
  "export_all convert rnd st keras_model_path output_dir =
     (let float16_path = path_join output_dir ''fungal_classifier.tflite'';
          quant_path = path_join output_dir ''fungal_classifier_quant.tflite''
      in case convert_to_tflite convert st keras_model_path float16_path False of
           Inl e \<Rightarrow> (Inl e, st)
         | Inr (st1, p1) \<Rightarrow>
             (case convert_to_tflite convert st1 keras_model_path quant_path True of
                Inl e \<Rightarrow> (Inl e, st1)
              | Inr (st2, p2) \<Rightarrow>
                  (let (st3, labels_path) = create_labels_file st2 output_dir
                   in case verify_tflite_model st3 rnd float16_path None of
                        Inl e \<Rightarrow> (Inl e, st3)
                      | Inr r \<Rightarrow> (Inr [(float16_path, r)], st3))))"

definition labels_file_lines :: "'k store \<times> string \<Rightarrow> string list" where
  "labels_file_lines written =
     (case fst written (snd written) of
        Some (TextFile s) \<Rightarrow> file_lines s
      | _ \<Rightarrow> [])"

section \<open>Example datasets and artifacts\<close>

text \<open>
  The examples the theorems below are instantiated at. A file's content is a boolean:
  whether PIL verifies it. Every example dataset lies at the path \<open>data\<close>.
\<close>

definition intact :: "bool \<Rightarrow> bool" where
  "intact c = c"

definition images :: "nat \<Rightarrow> (string \<times> bool node) list" where
  "images k = map (\<lambda>i. (str_nat i @ ''.jpg'', File True)) [0..<k]"

definition dataset_at :: "'c node \<Rightarrow> 'c fs" where
  "dataset_at t p = (if p = ''data'' then Some t else None)"

definition two_five_entries :: "(string \<times> bool node) list" where
  "two_five_entries =
     [(''tinea_pedis'', Dir [(''a.jpg'', File True), (''b.PNG'', File True), (''notes.txt'', File False)]),
      (''.cache'', Dir (images 4)),
      (''README.md'', File False),
      (''candidiasis'', Dir (images 5))]"

definition single_class_entries :: "(string \<times> bool node) list" where
  "single_class_entries =
     [(''empty'', Dir []), (''tinea_pedis'', Dir (images 30)), (''labels.csv'', File False)]"

definition two_class_entries :: "(string \<times> bool node) list" where
  "two_class_entries =
     [(''tinea_pedis'', Dir (images 10)),
      (''candidiasis'', Dir (images 10 @ [(''broken.jpg'', File False)]))]"

definition four_class_entries :: "(string \<times> bool node) list" where
  "four_class_entries =
     [(''tinea_versicolor'', Dir (images 5)),
      (''candidiasis'', Dir (images 5)),
      (''tinea_pedis'', Dir (images 5)),
      (''tinea_corporis'', Dir (images 5))]"

definition mixed_tree :: "bool node" where
  "mixed_tree =
     Dir [(''notes.txt'', File False),
          (''candidiasis'', Dir [(''a.jpg'', File True), (''b.jpg'', File False),
                                 (''meta.csv'', File False),
                                 (''more'', Dir [(''c.png'', File True), (''d.png'', File False)])]),
          (''cover.png'', File True)]"

text \<open>An artifact whose output is the same two values for every input, a converter
  that returns it, a store that holds a saved Keras model, and a constant "random" input.\<close>

definition skewed_output :: tensor where
  "skewed_output = \<lparr>shape = [1, 2], elems = [1 / 2, 1 / 4]\<rparr>"

definition skewed_invoke :: "tensor \<Rightarrow> error + tensor" where
  "skewed_invoke t = Inr skewed_output"

definition skewed_artifact :: tflite where
  "skewed_artifact = \<lparr>input_shape = [1, 2, 2, 3], invoke = skewed_invoke\<rparr>"

definition skewed_convert :: "unit \<Rightarrow> bool \<Rightarrow> error + tflite" where
  "skewed_convert k quantize = Inr skewed_artifact"

definition keras_store :: "unit store" where
  "keras_store p = (if p = ''models/fungal_classifier.keras'' then Some (KerasFile ()) else None)"

definition artifact_store :: "unit store" where
  "artifact_store p = (if p = ''models/fungal_classifier.tflite'' then Some (TFLiteFile skewed_artifact) else None)"

definition zeros :: "nat list \<Rightarrow> real list" where
  "zeros s = replicate (prod_list s) 0"

section \<open>Properties of validation\<close>

lemma dict_set_fresh: "k \<notin> fst ` set kvs \<Longrightarrow> dict_set k v kvs = kvs @ [(k, v)]"
  by (induction kvs) auto

lemma populated_classes_names: "fst ` set (populated_classes es) \<subseteq> fst ` set es"
proof (induction es rule: populated_classes.induct)
  case 1
  then show ?case by simp
next
  case (2 name c rest)
  then show ?case by auto
next
  case (3 name es rest)
  then show ?case by auto
qed

lemma scan_classes_populated:
  "distinct (map fst es) \<Longrightarrow> fst ` set es \<inter> fst ` set acc = {}
     \<Longrightarrow> scan_classes es acc = acc @ populated_classes es"
proof (induction es acc rule: scan_classes.induct)
  case (1 acc)
  then show ?case by simp
next
  case (2 name c rest acc)
  then show ?case by auto
next
  case (3 name es rest acc)
  show ?case
  proof (cases "\<not> startswith_dot name \<and> count_images es > 0")
    case True
    have fresh: "name \<notin> fst ` set acc" using "3.prems"(2) by auto
    have d: "distinct (map fst rest)" using "3.prems"(1) by simp
    have "fst ` set rest \<inter> fst ` set (dict_set name (count_images es) acc) = {}"
      using "3.prems" fresh by (auto simp: dict_set_fresh)
    with True d "3.IH"(1)
    have "scan_classes rest (dict_set name (count_images es) acc)
            = dict_set name (count_images es) acc @ populated_classes rest"
      by simp
    with True fresh show ?thesis by (simp add: dict_set_fresh)
  next
    case False
    have d: "distinct (map fst rest)" using "3.prems"(1) by simp
    have i: "fst ` set rest \<inter> fst ` set acc = {}" using "3.prems"(2) by auto
    from False show ?thesis
      using "3.IH"(2)[OF _ _ _ d i] "3.IH"(3)[OF _ d i] by (auto simp: Let_def)
  qed
qed

lemma scan_classes_root:
  "distinct (map fst es) \<Longrightarrow> scan_classes es [] = populated_classes es"
  using scan_classes_populated [of es "[]"] by simp

lemma str_nat_values:
  "str_nat 1 = ''1''" "str_nat 2 = ''2''" "str_nat 3 = ''3''" "str_nat 7 = ''7''"
  "str_nat 13 = ''13''" "str_nat 20 = ''20''" "str_nat (Suc 0) = ''1''"
  by (simp_all add: str_nat.simps digit_def)

text \<open>
  C5. A dataset whose populated classes have 2 and 5 images (7 in all) is rejected, and
  the message holds both complaints at once: the class with 2 images needs 1 more, and
  the dataset needs 13 more images. The message is given in full, for either listing
  order of the two classes.
\<close>

theorem validate_dataset_two_five:
  assumes root: "files data_dir = Some (Dir es)"
    and names: "distinct (map fst es)"
    and counts: "populated_classes es = [(a, 2), (b, 5)] \<or> populated_classes es = [(b, 5), (a, 2)]"
  shows "validate_dataset files data_dir =
           Inr (False,
                Some (join newline
                  [cross_mark @ '' Some classes have too few images (minimum: 3 per class):'',
                   ''   - '' @ a @ '': 2 images (need 1 more)'',
                   cross_mark @ '' Insufficient total images: 7 (minimum: 20)'',
                   ''   Please add 13 more images'']),
                Some \<lparr>num_classes = 2, total_images = 7, class_counts = populated_classes es\<rparr>)"
  using root counts
  by (auto simp add: validate_dataset_def scan_classes_root [OF names] check_counts_def
        per_class_errors_def total_errors_def MIN_CLASSES_def MIN_IMAGES_PER_CLASS_def
        MIN_TOTAL_IMAGES_def str_nat_values Let_def)

theorem validate_dataset_two_five_witness:
  "populated_classes two_five_entries = [(''tinea_pedis'', 2), (''candidiasis'', 5)]
   \<and> validate_dataset (dataset_at (Dir two_five_entries)) ''data'' =
       Inr (False,
            Some (join newline
              [cross_mark @ '' Some classes have too few images (minimum: 3 per class):'',
               ''   - tinea_pedis: 2 images (need 1 more)'',
               cross_mark @ '' Insufficient total images: 7 (minimum: 20)'',
               ''   Please add 13 more images'']),
            Some \<lparr>num_classes = 2, total_images = 7,
                  class_counts = [(''tinea_pedis'', 2), (''candidiasis'', 5)]\<rparr>)"
proof -
  have root: "dataset_at (Dir two_five_entries) ''data'' = Some (Dir two_five_entries)"
    by (simp add: dataset_at_def)
  have names: "distinct (map fst two_five_entries)"
    by (simp add: two_five_entries_def)
  have counts: "populated_classes two_five_entries = [(''tinea_pedis'', 2), (''candidiasis'', 5)]"
    by code_simp
  show ?thesis
    using validate_dataset_two_five
            [where files = "dataset_at (Dir two_five_entries)" and data_dir = "''data''"
               and es = two_five_entries and a = "''tinea_pedis''" and b = "''candidiasis''"]
          root names counts
    by simp
qed

text \<open>
  C6. A dataset with exactly one populated class is rejected whatever the number of its
  images, with the message (given in full) that names the class; the per-class and the
  total minimum are not checked.
\<close>

theorem validate_dataset_single_class:
  assumes root: "files data_dir = Some (Dir es)"
    and names: "distinct (map fst es)"
    and one: "populated_classes es = [(cls, count)]"
  shows "validate_dataset files data_dir =
           Inr (False,
                Some (join newline
                  [cross_mark @ '' Insufficient disease classes: 1 (minimum: 2)'',
                   ''   Current classes: '' @ cls,
                   ''   Please add images to at least 2 different disease folders'']),
                Some \<lparr>num_classes = 1, total_images = count, class_counts = [(cls, count)]\<rparr>)"
  using root one
  by (simp add: validate_dataset_def scan_classes_root [OF names] check_counts_def
        few_classes_errors_def MIN_CLASSES_def str_nat_values Let_def)

theorem validate_dataset_single_class_witness:
  "populated_classes single_class_entries = [(''tinea_pedis'', 30)]
   \<and> validate_dataset (dataset_at (Dir single_class_entries)) ''data'' =
       Inr (False,
            Some (join newline
              [cross_mark @ '' Insufficient disease classes: 1 (minimum: 2)'',
               ''   Current classes: tinea_pedis'',
               ''   Please add images to at least 2 different disease folders'']),
            Some \<lparr>num_classes = 1, total_images = 30, class_counts = [(''tinea_pedis'', 30)]\<rparr>)"
proof -
  have root: "dataset_at (Dir single_class_entries) ''data'' = Some (Dir single_class_entries)"
    by (simp add: dataset_at_def)
  have names: "distinct (map fst single_class_entries)"
    by (simp add: single_class_entries_def)
  have one: "populated_classes single_class_entries = [(''tinea_pedis'', 30)]"
    by code_simp
  show ?thesis
    using validate_dataset_single_class
            [where files = "dataset_at (Dir single_class_entries)" and data_dir = "''data''"
               and es = single_class_entries]
          root names one
    by simp
qed

text \<open>
  C7. A dataset with at least 2 populated classes, at least 3 images in each of them and
  at least 20 images in all is accepted: the result is valid, with no message, and the
  stats are the populated classes with their image counts, the number of these classes
  and the sum of the counts.
\<close>

theorem validate_dataset_accepts:
  assumes root: "files data_dir = Some (Dir es)"
    and names: "distinct (map fst es)"
    and classes: "2 \<le> length (populated_classes es)"
    and each: "\<forall>(cls, count) \<in> set (populated_classes es). 3 \<le> count"
    and enough: "20 \<le> sum_list (map snd (populated_classes es))"
  shows "validate_dataset files data_dir =
           Inr (True, None,
                Some \<lparr>num_classes = length (populated_classes es),
                      total_images = sum_list (map snd (populated_classes es)),
                      class_counts = populated_classes es\<rparr>)"
proof -
  have "filter (\<lambda>(k, v). v < MIN_IMAGES_PER_CLASS) (populated_classes es) = []"
    using each by (auto simp: filter_empty_conv MIN_IMAGES_PER_CLASS_def)
  moreover have "populated_classes es \<noteq> []"
    using classes by auto
  ultimately show ?thesis
    using root classes enough
    by (simp add: validate_dataset_def scan_classes_root [OF names] check_counts_def
          MIN_CLASSES_def MIN_TOTAL_IMAGES_def Let_def)
qed

theorem validate_dataset_accepts_witness:
  "populated_classes two_class_entries = [(''tinea_pedis'', 10), (''candidiasis'', 11)]
   \<and> validate_dataset (dataset_at (Dir two_class_entries)) ''data'' =
       Inr (True, None,
            Some \<lparr>num_classes = 2, total_images = 21,
                  class_counts = [(''tinea_pedis'', 10), (''candidiasis'', 11)]\<rparr>)"
proof -
  have root: "dataset_at (Dir two_class_entries) ''data'' = Some (Dir two_class_entries)"
    by (simp add: dataset_at_def)
  have names: "distinct (map fst two_class_entries)"
    by (simp add: two_class_entries_def)
  have counts: "populated_classes two_class_entries = [(''tinea_pedis'', 10), (''candidiasis'', 11)]"
    by code_simp
  have classes: "2 \<le> length (populated_classes two_class_entries)"
    by (simp add: counts)
  have each: "\<forall>(cls, count) \<in> set (populated_classes two_class_entries). 3 \<le> count"
    by (simp add: counts)
  have enough: "20 \<le> sum_list (map snd (populated_classes two_class_entries))"
    by (simp add: counts)
  show ?thesis
    using validate_dataset_accepts
            [where files = "dataset_at (Dir two_class_entries)" and data_dir = "''data''"
               and es = two_class_entries]
          root names classes each enough counts
    by simp
qed

section \<open>Properties of cleaning\<close>

lemma removed_here_files:
  "removed_here ok d es = map fst (filter (\<lambda>(p, c). \<not> ok c) (files_here d es))"
  by (induction ok d es rule: removed_here.induct) auto

lemma files_here_clean:
  "files_here d (clean_entries ok es) = filter (\<lambda>(p, c). ok c) (files_here d es)"
  by (induction d es rule: files_here.induct) auto

lemma walk_removed_files:
  "walk_removed ok d t = map fst (filter (\<lambda>(p, c). \<not> ok c) (all_files d t))"
  "walk_removed_subdirs ok d es = map fst (filter (\<lambda>(p, c). \<not> ok c) (all_files_subdirs d es))"
  by (induction ok d t and ok d es rule: walk_removed_walk_removed_subdirs.induct)
     (simp_all add: removed_here_files)

lemma all_files_clean:
  "all_files d (clean ok t) = filter (\<lambda>(p, c). ok c) (all_files d t)"
  "all_files_subdirs d (clean_entries ok es) = filter (\<lambda>(p, c). ok c) (all_files_subdirs d es)"
  by (induction ok t and ok es arbitrary: d and d rule: clean_clean_entries.induct)
     (simp_all add: files_here_clean)

lemma subdir_names_clean: "subdir_names (clean_entries ok es) = subdir_names es"
  by (induction es rule: subdir_names.induct) auto

text \<open>
  C10. \<open>remove_corrupted_images\<close> returns the paths of exactly the files under the root
  whose content fails verification, in the order of the walk, and the files left under
  the root are exactly those that verify, each at its path with its content. No file
  name or extension enters either side.
\<close>

theorem remove_corrupted_images_exact:
  "fst (remove_corrupted_images is_valid_image files root_path)
     = map fst (filter (\<lambda>(p, c). \<not> is_valid_image c) (files_under files root_path))
   \<and> files_under (snd (remove_corrupted_images is_valid_image files root_path)) root_path
     = filter (\<lambda>(p, c). is_valid_image c) (files_under files root_path)"
  by (simp add: remove_corrupted_images_def files_under_def walk_removed_files all_files_clean
        split: option.split)

theorem remove_corrupted_images_exact_witness:
  "fst (remove_corrupted_images intact (dataset_at mixed_tree) ''data'')
     = [''data/notes.txt'', ''data/candidiasis/b.jpg'', ''data/candidiasis/meta.csv'',
        ''data/candidiasis/more/d.png'']
   \<and> files_under (snd (remove_corrupted_images intact (dataset_at mixed_tree) ''data'')) ''data''
     = [(''data/cover.png'', True), (''data/candidiasis/a.jpg'', True),
        (''data/candidiasis/more/c.png'', True)]"
proof -
  have f: "files_under (dataset_at mixed_tree) ''data''
             = [(''data/notes.txt'', False), (''data/cover.png'', True),
                (''data/candidiasis/a.jpg'', True), (''data/candidiasis/b.jpg'', False),
                (''data/candidiasis/meta.csv'', False), (''data/candidiasis/more/c.png'', True),
                (''data/candidiasis/more/d.png'', False)]"
    by code_simp
  from remove_corrupted_images_exact [of intact "dataset_at mixed_tree" "''data''"]
  show ?thesis by (simp add: f intact_def)
qed

section \<open>Properties of training\<close>

lemma check_counts_invalid_message:
  "check_counts data_dir cc = (False, error_msg, st) \<Longrightarrow> error_msg \<noteq> None"
  by (auto simp: check_counts_def Let_def split: if_splits)

lemma validate_dataset_invalid_message:
  "validate_dataset files data_dir = Inr (False, error_msg, st) \<Longrightarrow> error_msg \<noteq> None"
  by (auto simp: validate_dataset_def split: option.splits node.splits
        dest: check_counts_invalid_message)

text \<open>
  C8. When the validator rejects the dataset, \<open>train\<close> raises \<open>ValueError\<close> with the
  validator's message, and nothing else has happened: no event of cleaning, generator
  construction, model building, fitting, plotting or saving, and the files are as
  they were.
\<close>

theorem train_aborts_before_compute:
  assumes "validate_dataset files data_dir = Inr (False, error_msg, st)"
  shows "\<exists>msg. error_msg = Some msg
           \<and> train is_valid_image n_backbone_layers files data_dir output_dir
               = \<lparr>outcome = Inl (ValueError (Some msg)), events = [], files_after = files\<rparr>"
proof -
  from validate_dataset_invalid_message [OF assms] obtain msg where "error_msg = Some msg"
    by auto
  with assms show ?thesis by (simp add: train_def)
qed

theorem train_aborts_before_compute_witness:
  "train intact 154 (dataset_at (Dir single_class_entries)) ''data'' ''models''
     = \<lparr>outcome = Inl (ValueError (Some (join newline
            [cross_mark @ '' Insufficient disease classes: 1 (minimum: 2)'',
             ''   Current classes: tinea_pedis'',
             ''   Please add images to at least 2 different disease folders'']))),
        events = [],
        files_after = dataset_at (Dir single_class_entries)\<rparr>"
proof -
  have v: "validate_dataset (dataset_at (Dir single_class_entries)) ''data'' =
       Inr (False,
            Some (join newline
              [cross_mark @ '' Insufficient disease classes: 1 (minimum: 2)'',
               ''   Current classes: tinea_pedis'',
               ''   Please add images to at least 2 different disease folders'']),
            Some \<lparr>num_classes = 1, total_images = 30, class_counts = [(''tinea_pedis'', 30)]\<rparr>)"
    by code_simp
  show ?thesis
    using train_aborts_before_compute
            [where files = "dataset_at (Dir single_class_entries)" and data_dir = "''data''"
               and is_valid_image = intact and n_backbone_layers = 154
               and output_dir = "''models''"]
          v
    by auto
qed

lemma fine_tune_setup_backbone:
  "backbone (fine_tune_setup m)
     = replicate (min 100 (length (backbone m))) False @ replicate (length (backbone m) - 100) True"
  by (simp add: fine_tune_setup_def compile_def freeze_first_def set_trainable_def
        map_replicate_const take_map drop_map min.commute)

lemma build_model_backbone: "length (backbone (compile lr (build_model n k))) = n"
  by (simp add: compile_def build_model_def set_trainable_def)

text \<open>
  C9. In the model that a successful run of \<open>train\<close> has after the phase-2 setup, the
  first 100 layers of the backbone are not trainable and every later layer is, and the
  model is compiled with learning rate 0.0001.
\<close>

theorem train_phase2_layers:
  assumes "outcome (train is_valid_image n files data_dir output_dir) = Inr r"
  shows "backbone (final_model r) = replicate (min 100 n) False @ replicate (n - 100) True
         \<and> (\<forall>i < n. backbone (final_model r) ! i = (100 \<le> i))
         \<and> compiled_lr (final_model r) = Some (1 / 10000)
         \<and> Compiled (1 / 10000) \<in> set (events (train is_valid_image n files data_dir output_dir))"
proof -
  obtain k where r: "final_model r = fine_tune_setup (compile LEARNING_RATE (build_model n k))"
    using assms
    by (auto simp: train_def Let_def split: sum.splits prod.splits if_splits)
  have b: "backbone (final_model r) = replicate (min 100 n) False @ replicate (n - 100) True"
    by (simp add: r fine_tune_setup_backbone build_model_backbone)
  have "\<forall>i < n. backbone (final_model r) ! i = (100 \<le> i)"
    by (auto simp: b nth_append)
  moreover have "compiled_lr (final_model r) = Some (1 / 10000)"
    by (simp add: r fine_tune_setup_def compile_def FINE_TUNE_LR_def)
  moreover have "Compiled (1 / 10000) \<in> set (events (train is_valid_image n files data_dir output_dir))"
    using assms
    by (auto simp: train_def Let_def FINE_TUNE_LR_def split: sum.splits prod.splits if_splits)
  ultimately show ?thesis using b by simp
qed

theorem train_phase2_layers_witness:
  "backbone (fine_tune_setup (compile LEARNING_RATE (build_model 154 2))) ! 99 = False
   \<and> backbone (fine_tune_setup (compile LEARNING_RATE (build_model 154 2))) ! 100 = True
   \<and> backbone (fine_tune_setup (compile LEARNING_RATE (build_model 154 2)))
       = replicate 100 False @ replicate 54 True
   \<and> compiled_lr (fine_tune_setup (compile LEARNING_RATE (build_model 154 2))) = Some (1 / 10000)"
proof -
  have t: "outcome (train intact 154 (dataset_at (Dir two_class_entries)) ''data'' ''models'')
             = Inr \<lparr>final_model = fine_tune_setup (compile LEARNING_RATE (build_model 154 2)),
                    class_indices = [''candidiasis'', ''tinea_pedis'']\<rparr>"
    by code_simp
  from train_phase2_layers [OF t] show ?thesis by (simp add: nth_append)
qed

lemma generator_class_indices_cleaned:
  "generator_class_indices (snd (remove_corrupted_images ok files data_dir)) data_dir
     = generator_class_indices files data_dir"
  by (simp add: generator_class_indices_def remove_corrupted_images_def subdir_names_clean
        split: option.split node.split)

lemma train_class_indices:
  assumes "outcome (train ok n files data_dir output_dir) = Inr r"
  shows "class_indices r = generator_class_indices files data_dir"
proof -
  have "class_indices r
          = generator_class_indices (snd (remove_corrupted_images ok files data_dir)) data_dir"
    using assms
    by (auto simp: train_def Let_def split: sum.splits prod.splits if_splits)
  then show ?thesis by (simp add: generator_class_indices_cleaned)
qed

section \<open>Properties of the export\<close>

lemma labels_file_lines_written:
  "labels_file_lines (create_labels_file st output_dir) = CLASS_NAMES"
  by (simp add: labels_file_lines_def create_labels_file_def Let_def labels_text_def
        CLASS_NAMES_def file_lines_def newline_def)

text \<open>
  C2, as the claim states it, fails: trained on a valid dataset with the two class
  folders \<open>candidiasis\<close> and \<open>tinea_pedis\<close>, the model has two classes, and the labels
  file written by the exporter has the four lines of \<open>CLASS_NAMES\<close>.
\<close>

theorem labels_file_two_class_counterexample:
  "map_sum id class_indices
     (outcome (train intact 154 (dataset_at (Dir two_class_entries)) ''data'' ''models''))
     = Inr [''candidiasis'', ''tinea_pedis'']
   \<and> labels_file_lines (create_labels_file keras_store ''models'')
     = [''candidiasis'', ''tinea_corporis'', ''tinea_pedis'', ''tinea_versicolor'']"
proof -
  have "map_sum id class_indices
          (outcome (train intact 154 (dataset_at (Dir two_class_entries)) ''data'' ''models''))
          = Inr [''candidiasis'', ''tinea_pedis'']"
    by code_simp
  then show ?thesis
    by (simp add: labels_file_lines_written CLASS_NAMES_def)
qed

text \<open>
  C2, amended. The labels file written by \<open>create_labels_file\<close> holds the four entries of
  the configured \<open>CLASS_NAMES\<close>, one per line in that order, whatever model was trained.
  For a model that \<open>train\<close> returned, the lines are the model's class-index order (and
  so as many as its classes) exactly when the class folders of the training directory,
  sorted by name, are \<open>CLASS_NAMES\<close>.
\<close>

theorem labels_file_is_CLASS_NAMES:
  assumes "outcome (train is_valid_image n files data_dir train_dir) = Inr r"
  shows "labels_file_lines (create_labels_file st output_dir) = CLASS_NAMES
         \<and> length (labels_file_lines (create_labels_file st output_dir)) = 4
         \<and> ((labels_file_lines (create_labels_file st output_dir) = class_indices r)
              = (generator_class_indices files data_dir = CLASS_NAMES))"
  using train_class_indices [OF assms]
  by (auto simp: labels_file_lines_written) (simp add: CLASS_NAMES_def)

theorem labels_file_is_CLASS_NAMES_witness:
  "generator_class_indices (dataset_at (Dir four_class_entries)) ''data'' = CLASS_NAMES
   \<and> labels_file_lines (create_labels_file keras_store ''models'')
       = [''candidiasis'', ''tinea_corporis'', ''tinea_pedis'', ''tinea_versicolor'']
   \<and> length (labels_file_lines (create_labels_file keras_store ''models'')) = 4"
proof -
  have t: "outcome (train intact 154 (dataset_at (Dir four_class_entries)) ''data'' ''models'')
             = Inr \<lparr>final_model = fine_tune_setup (compile LEARNING_RATE (build_model 154 4)),
                    class_indices = [''candidiasis'', ''tinea_corporis'', ''tinea_pedis'',
                                     ''tinea_versicolor'']\<rparr>"
    by code_simp
  from labels_file_is_CLASS_NAMES [OF t, of keras_store "''models''"]
  show ?thesis by (auto simp: CLASS_NAMES_def)
qed

text \<open>
  C3, as the claim states it, fails: an export whose converter yields an artifact with
  two output values that sum to 3/4 passes the verification step, which reports the
  shape and the sum, and the report is of the float16 artifact alone.
\<close>

theorem export_all_skewed_counterexample:
  "fst (export_all skewed_convert zeros keras_store ''models/fungal_classifier.keras'' ''models'')
     = Inr [(''models/fungal_classifier.tflite'',
             \<lparr>output_shape = [1, 2], probabilities = [1 / 2, 1 / 4],
              sum_of_probabilities = 3 / 4, prediction = None\<rparr>)]
   \<and> length CLASS_NAMES = 4"
proof -
  have "fst (export_all skewed_convert zeros keras_store ''models/fungal_classifier.keras'' ''models'')
     = Inr [(''models/fungal_classifier.tflite'',
             \<lparr>output_shape = [1, 2], probabilities = [1 / 2, 1 / 4],
              sum_of_probabilities = 3 / 4, prediction = None\<rparr>)]"
    by code_simp
  then show ?thesis by (simp add: CLASS_NAMES_def)
qed

text \<open>
  C3, amended. Verifying an artifact (\<open>verify_tflite_model\<close>, without a test image, as
  \<open>export_all\<close> calls it) loads it, runs one inference on a randomly generated input of
  the artifact's input shape, and reports the shape of the output and the sum of its
  first row. It asserts nothing about either: whenever the artifact loads and the
  inference returns an output that has a first row, the verification passes.
\<close>

theorem verify_tflite_model_reports:
  assumes "st tflite_path = Some (TFLiteFile m)"
    and "invoke m \<lparr>shape = input_shape m, elems = rnd (input_shape m)\<rparr> = Inr out"
    and "first_row out = Inr row"
  shows "verify_tflite_model st rnd tflite_path None
           = Inr \<lparr>output_shape = shape out, probabilities = row,
                  sum_of_probabilities = sum_list row, prediction = None\<rparr>"
  using assms by (simp add: verify_tflite_model_def predict_test_image_def)

theorem verify_tflite_model_reports_witness:
  "verify_tflite_model artifact_store zeros ''models/fungal_classifier.tflite'' None
     = Inr \<lparr>output_shape = [1, 2], probabilities = [1 / 2, 1 / 4],
            sum_of_probabilities = 3 / 4, prediction = None\<rparr>"
proof -
  have a: "artifact_store ''models/fungal_classifier.tflite'' = Some (TFLiteFile skewed_artifact)"
    by (simp add: artifact_store_def)
  have b: "invoke skewed_artifact
             \<lparr>shape = input_shape skewed_artifact, elems = zeros (input_shape skewed_artifact)\<rparr>
             = Inr skewed_output"
    by (simp add: skewed_artifact_def skewed_invoke_def)
  have c: "first_row skewed_output = Inr [1 / 2, 1 / 4]"
    by (simp add: first_row_def skewed_output_def)
  show ?thesis
    using verify_tflite_model_reports
            [where st = artifact_store and tflite_path = "''models/fungal_classifier.tflite''"
               and m = skewed_artifact and rnd = zeros and out = skewed_output
               and row = "[1 / 2, 1 / 4]"]
          a b c
    by (simp add: skewed_output_def)
qed

section \<open>Properties of preprocessing\<close>

lemma scale_inj: "inj scale"
  by (auto simp: inj_def scale_def)

lemma preprocessed_eq_iff:
  "(expand_dims (preprocess_input a) = expand_dims (preprocess_input b)) = (a = b)"
  by (cases a; cases b) (simp add: expand_dims_def preprocess_input_def inj_map_eq_map [OF scale_inj])

text \<open>
  C4. What \<open>preprocess_image_bytes\<close> returns: the error of the decoder, or the decoded
  and resized tensor with every element \<open>x\<close> replaced by \<open>scale x = x / 127.5 - 1\<close> and one
  leading axis of length 1 added. The shape is \<open>(1, 224, 224, 3)\<close> only when the resized
  tensor has shape \<open>(224, 224, 3)\<close>; a decoder that yields a sequence of frames, of shape
  \<open>(n, h, w, 3)\<close>, leads to a result of rank 5.
\<close>

theorem preprocess_image_bytes_result:
  "preprocess_image_bytes decode_image resize image_bytes target_size
     = map_sum id
         (\<lambda>img. \<lparr>shape = 1 # shape (resize img target_size),
                 elems = map scale (elems (resize img target_size))\<rparr>)
         (decode_image image_bytes 3)"
  by (cases "decode_image image_bytes 3")
     (simp_all add: preprocess_image_bytes_def expand_dims_def preprocess_input_def)

text \<open>
  C1. The results of the two input paths are equal exactly when the library pipelines
  they call give equal results: \<open>load_img\<close> at the target size followed by
  \<open>img_to_array\<close> on one side, \<open>decode_image\<close> followed by \<open>resize\<close> on the other. The
  code of the repository adds the same scaling and the same leading axis to both, and
  nothing that would make different pipelines agree.
\<close>

theorem preprocess_paths_agree_iff:
  "(preprocess_image load_img img_to_array image_path target_size
      = preprocess_image_bytes decode_image resize image_bytes target_size)
   = (map_sum id img_to_array (load_img image_path target_size)
      = map_sum id (\<lambda>img. resize img target_size) (decode_image image_bytes 3))"
  by (cases "load_img image_path target_size"; cases "decode_image image_bytes 3")
     (simp_all add: preprocess_image_def preprocess_image_bytes_def preprocessed_eq_iff)

end
